theory Spec2Isabelle
  imports Main
begin

section \<open>JavaScript values of the request body\<close>

text \<open>
  The server (\<^verbatim>\<open>server.js\<close>, and its copy with the DeepSeek route added) relays a
  translation request to one of four providers. Each route handler reads
  \<^verbatim>\<open>req.body\<close>, the object that \<^verbatim>\<open>express.json()\<close> parsed from whatever JSON the client
  sent, so the fields can hold any JSON value.

  An object is the list of its members in document order. Strings are kept as their
  UTF-8 bytes, the encoding of the source file and of the wire. \<open>JNum n\<close> is the number
  whose value is the integer \<open>n\<close>; the handlers observe a number only through
  \<^verbatim>\<open>!x\<close> and through template interpolation, where an integer below \<open>10\<^sup>2\<^sup>1\<close> in
  magnitude prints in plain decimal. \<open>JUndefined\<close> is what reading an absent property
  yields.
\<close>

datatype jsval =
    JUndefined
  | JNull
  | JBool bool
  | JNum int
  | JStr string
  | JArr "jsval list"
  | JObj "(string \<times> jsval) list"

datatype js_error = JsError (message: string)

text \<open>ToBoolean, as used by \<^verbatim>\<open>!x\<close>, \<^verbatim>\<open>x ? a : b\<close> and \<^verbatim>\<open>x || y\<close>.\<close>

fun truthy :: "jsval \<Rightarrow> bool" where
  "truthy JUndefined = False"
| "truthy JNull = False"
| "truthy (JBool b) = b"
| "truthy (JNum n) = (n \<noteq> 0)"
| "truthy (JStr s) = (s \<noteq> [])"
| "truthy (JArr xs) = True"
| "truthy (JObj ps) = True"

text \<open>
  Reading a property of a parsed JSON object, as the destructuring
  \<^verbatim>\<open>const { text, targetLanguage, instructions } = req.body\<close> does: an absent key gives
  \<^verbatim>\<open>undefined\<close>, and of a key written twice \<^verbatim>\<open>JSON.parse\<close> keeps the last value.
\<close>

definition field :: "(string \<times> jsval) list \<Rightarrow> string \<Rightarrow> jsval" where
  "field obj k = (case map_of (rev obj) k of None \<Rightarrow> JUndefined | Some v \<Rightarrow> v)"

subsection \<open>ToString, as applied by template literals\<close>

fun digits :: "nat \<Rightarrow> string" where
  "digits n =
     (if n < 10 then [char_of (48 + n)]
      else digits (n div 10) @ [char_of (48 + n mod 10)])"

definition number_toString :: "int \<Rightarrow> string" where
  "number_toString n = (if n < 0 then ''-'' @ digits (nat (- n)) else digits (nat n))"

definition type_error :: js_error where
  "type_error = JsError ''Cannot convert object to primitive value''"

text \<open>
  A plain object prints as \<^verbatim>\<open>[object Object]\<close> through \<^verbatim>\<open>Object.prototype.toString\<close>,
  unless it has an own property \<^verbatim>\<open>toString\<close>: a JSON value is never callable, so neither
  it nor \<^verbatim>\<open>valueOf\<close> yields a primitive and the conversion throws a TypeError.
  An array prints as its elements joined by commas, \<^verbatim>\<open>null\<close> and \<^verbatim>\<open>undefined\<close>
  elements as the empty string.
\<close>

fun toString :: "jsval \<Rightarrow> js_error + string"
  and join :: "jsval list \<Rightarrow> js_error + string" where
  "toString JUndefined = Inr ''undefined''"
| "toString JNull = Inr ''null''"
| "toString (JBool b) = Inr (if b then ''true'' else ''false'')"
| "toString (JNum n) = Inr (number_toString n)"
| "toString (JStr s) = Inr s"
| "toString (JArr xs) = join xs"
| "toString (JObj ps) =
     (if map_of ps ''toString'' = None then Inr ''[object Object]'' else Inl type_error)"
| "join [] = Inr ''''"
| "join (x # xs) =
     (case (if x = JUndefined \<or> x = JNull then Inr '''' else toString x) of
        Inl e \<Rightarrow> Inl e
      | Inr s \<Rightarrow>
          (if xs = [] then Inr s
           else case join xs of Inl e \<Rightarrow> Inl e | Inr r \<Rightarrow> Inr (s @ '','' @ r)))"

text \<open>
  A template literal \<^verbatim>\<open>`a${x}b${y}`\<close> is a list of literal chunks and substitutions,
  evaluated left to right; the first conversion that throws ends the evaluation.
\<close>

datatype part = Lit string | Sub jsval

fun template :: "part list \<Rightarrow> js_error + string" where
  "template [] = Inr ''''"
| "template (Lit s # ps) =
     (case template ps of Inl e \<Rightarrow> Inl e | Inr r \<Rightarrow> Inr (s @ r))"
| "template (Sub v # ps) =
     (case toString v of
        Inl e \<Rightarrow> Inl e
      | Inr s \<Rightarrow> (case template ps of Inl e \<Rightarrow> Inl e | Inr r \<Rightarrow> Inr (s @ r)))"

section \<open>The Express response and what a handler does\<close>

text \<open>
  \<^verbatim>\<open>res.status(n).json(obj)\<close> sends status \<open>n\<close> and the JSON object; \<^verbatim>\<open>res.json(obj)\<close>
  alone sends it with the default status 200.
\<close>

record http_response =
  status :: nat
  body :: "(string \<times> jsval) list"

definition status_json :: "nat \<Rightarrow> (string \<times> jsval) list \<Rightarrow> http_response" where
  "status_json n obj = \<lparr>status = n, body = obj\<rparr>"

definition json :: "(string \<times> jsval) list \<Rightarrow> http_response" where
  "json obj = status_json 200 obj"

text \<open>
  Running a handler on one request yields the response sent, the prompts handed to the
  provider client (in order), and the lines written by \<^verbatim>\<open>console.error\<close>, each as the
  list of its arguments.
\<close>

record outcome =
  res :: http_response
  calls :: "string list"
  console :: "string list list"

section \<open>Provider results\<close>

text \<open>
  The provider clients are outside the repository. Each is a parameter of its handler: a
  function from the prompt to either the error the awaited call rejects with (\<open>Inl\<close>) or
  the value it resolves to (\<open>Inr\<close>). The other arguments of a call are constants of the
  handler: the model name (\<^verbatim>\<open>gemini-1.5-flash\<close>, \<^verbatim>\<open>claude-3-sonnet-20240229\<close>,
  \<^verbatim>\<open>gpt-4-turbo-preview\<close>, \<^verbatim>\<open>deepseek-chat\<close>), Claude's \<^verbatim>\<open>max_tokens: 1000\<close>, and the
  prompt's place as the content of a single \<^verbatim>\<open>user\<close> message. The resolved values have
  the shape the handlers read them by, with string contents as the clients declare them;
  a field read through \<^verbatim>\<open>?.\<close> may be absent (\<open>None\<close> for \<^verbatim>\<open>undefined\<close> or \<^verbatim>\<open>null\<close>).
\<close>

text \<open>Gemini: \<^verbatim>\<open>result.response\<close>, whose method \<^verbatim>\<open>text()\<close> returns a string or throws.\<close>

datatype generation_response = GenerationResponse (response_text: "js_error + string")
datatype generate_content_result = GenerateContentResult (result_response: generation_response)

text \<open>Claude: \<^verbatim>\<open>response.content?.[0]?.text\<close>.\<close>

datatype content_block = ContentBlock (block_text: "string option")
datatype claude_message = ClaudeMessage (content: "content_block list option")

text \<open>OpenAI and DeepSeek (the same client class): \<^verbatim>\<open>response.choices?.[0]?.message?.content\<close>.\<close>

datatype chat_message = ChatMessage (message_content: "string option")
datatype choice = Choice (choice_message: "chat_message option")
datatype chat_completion = ChatCompletion (choices: "choice list option")

text \<open>\<^verbatim>\<open>xs[0]\<close>: reading index 0 of an empty array gives \<^verbatim>\<open>undefined\<close>.\<close>

definition index0 :: "'a list \<Rightarrow> 'a option" where
  "index0 xs = (case xs of [] \<Rightarrow> None | x # _ \<Rightarrow> Some x)"

text \<open>\<^verbatim>\<open>a || b\<close> on a string that may be absent: absent and empty are both falsy.\<close>

definition or_else :: "string option \<Rightarrow> string \<Rightarrow> string" where
  "or_else a b = (case a of None \<Rightarrow> b | Some s \<Rightarrow> if s = [] then b else s)"

section \<open>The route handlers\<close>

text \<open>
  Each handler is one \<^verbatim>\<open>try\<close> block: destructure the body, validate, build the prompt,
  await the provider, unwrap, respond. Any throw or rejection inside it lands in the
  handler's \<^verbatim>\<open>catch\<close>, here \<open>catch_\<close>\<^emph>\<open>provider\<close>, which logs the error's message and
  responds 500; its second argument carries the provider calls made before the throw.
\<close>

subsection \<open>POST /api/translate/gemini\<close>

text \<open>
  \<^verbatim>\<open>server.js\<close>, lines 210 to 235. \<^verbatim>\<open>getGenerativeModel\<close> only builds the model handle;
  the handler then awaits \<^verbatim>\<open>generateContent(prompt)\<close>, \<^verbatim>\<open>result.response\<close> and
  \<^verbatim>\<open>generationResponse.text()\<close>, and sends the text as it is.
\<close>

definition catch_gemini :: "js_error \<Rightarrow> string list \<Rightarrow> outcome" where
  "catch_gemini error made =
     \<lparr>res = status_json 500 [(''error'', JStr ''Erreur lors de la traduction via Gemini'')],
      calls = made,
      console = [[''Erreur Gemini:'', message error]]\<rparr>"

definition translate_gemini ::
  "(string \<times> jsval) list \<Rightarrow> (string \<Rightarrow> js_error + generate_content_result) \<Rightarrow> outcome" where
  "translate_gemini req_body generateContent =
     (let text = field req_body ''text'';
          targetLanguage = field req_body ''targetLanguage'';
          instructions = field req_body ''instructions''
      in
      if \<not> truthy text \<or> \<not> truthy targetLanguage then
        \<lparr>res = status_json 400 [(''error'', JStr ''Champs text et targetLanguage requis.'')],
         calls = [], console = []\<rparr>
      else
        case (if truthy instructions
              then template [Lit ''Instructions: '', Sub instructions,
                             Lit ''\<newline>\<newline>Traduire ce texte en '', Sub targetLanguage,
                             Lit '':\<newline>'', Sub text]
              else template [Lit ''Traduire ce texte en '', Sub targetLanguage,
                             Lit '':\<newline>'', Sub text]) of
          Inl error \<Rightarrow> catch_gemini error []
        | Inr prompt \<Rightarrow>
            (case generateContent prompt of
               Inl error \<Rightarrow> catch_gemini error [prompt]
             | Inr result \<Rightarrow>
                 (let generationResponse = result_response result in
                  case response_text generationResponse of
                    Inl error \<Rightarrow> catch_gemini error [prompt]
                  | Inr translation \<Rightarrow>
                      \<lparr>res = json [(''translation'', JStr translation)],
                       calls = [prompt], console = []\<rparr>)))"

subsection \<open>POST /api/translate/claude\<close>

text \<open>
  \<^verbatim>\<open>server.js\<close>, lines 241 to 266: \<^verbatim>\<open>claudeClient.messages.create\<close>, then
  \<^verbatim>\<open>response.content?.[0]?.text || "(Aucune r.ponse Claude)"\<close> (the dot: the bytes C3 A9).
\<close>

definition catch_claude :: "js_error \<Rightarrow> string list \<Rightarrow> outcome" where
  "catch_claude error made =
     \<lparr>res = status_json 500 [(''error'', JStr ''Erreur lors de la traduction via Claude'')],
      calls = made,
      console = [[''Erreur Claude:'', message error]]\<rparr>"

definition translate_claude ::
  "(string \<times> jsval) list \<Rightarrow> (string \<Rightarrow> js_error + claude_message) \<Rightarrow> outcome" where
  "translate_claude req_body create =
     (let text = field req_body ''text'';
          targetLanguage = field req_body ''targetLanguage'';
          instructions = field req_body ''instructions''
      in
      if \<not> truthy text \<or> \<not> truthy targetLanguage then
        \<lparr>res = status_json 400 [(''error'', JStr ''Champs text et targetLanguage requis.'')],
         calls = [], console = []\<rparr>
      else
        case (if truthy instructions
              then template [Lit ''Instructions: '', Sub instructions,
                             Lit ''\<newline>\<newline>Traduire ce texte en '', Sub targetLanguage,
                             Lit '':\<newline>'', Sub text]
              else template [Lit ''Traduire ce texte en '', Sub targetLanguage,
                             Lit '':\<newline>'', Sub text]) of
          Inl error \<Rightarrow> catch_claude error []
        | Inr prompt \<Rightarrow>
            (case create prompt of
               Inl error \<Rightarrow> catch_claude error [prompt]
             | Inr response \<Rightarrow>
                 (let translation =
                        or_else (Option.bind (Option.bind (content response) index0) block_text)
                          (''(Aucune r'' @ [CHR 0xC3, CHR 0xA9] @ ''ponse Claude)'')
                  in \<lparr>res = json [(''translation'', JStr translation)],
                      calls = [prompt], console = []\<rparr>)))"

subsection \<open>POST /api/translate/openai\<close>

text \<open>
  \<^verbatim>\<open>server.js\<close>, lines 272 to 295: \<^verbatim>\<open>openaiClient.chat.completions.create\<close>, then
  \<^verbatim>\<open>response.choices?.[0]?.message?.content || "(Aucune r.ponse GPT)"\<close>.
\<close>

definition catch_openai :: "js_error \<Rightarrow> string list \<Rightarrow> outcome" where
  "catch_openai error made =
     \<lparr>res = status_json 500 [(''error'', JStr ''Erreur lors de la traduction via OpenAI'')],
      calls = made,
      console = [[''Erreur OpenAI:'', message error]]\<rparr>"

definition translate_openai ::
  "(string \<times> jsval) list \<Rightarrow> (string \<Rightarrow> js_error + chat_completion) \<Rightarrow> outcome" where
  "translate_openai req_body create =
     (let text = field req_body ''text'';
          targetLanguage = field req_body ''targetLanguage'';
          instructions = field req_body ''instructions''
      in
      if \<not> truthy text \<or> \<not> truthy targetLanguage then
        \<lparr>res = status_json 400 [(''error'', JStr ''Champs text et targetLanguage requis.'')],
         calls = [], console = []\<rparr>
      else
        case (if truthy instructions
              then template [Lit ''Instructions: '', Sub instructions,
                             Lit ''\<newline>\<newline>Traduire ce texte en '', Sub targetLanguage,
                             Lit '':\<newline>'', Sub text]
              else template [Lit ''Traduire ce texte en '', Sub targetLanguage,
                             Lit '':\<newline>'', Sub text]) of
          Inl error \<Rightarrow> catch_openai error []
        | Inr prompt \<Rightarrow>
            (case create prompt of
               Inl error \<Rightarrow> catch_openai error [prompt]
             | Inr response \<Rightarrow>
                 (let translation =
                        or_else (Option.bind (Option.bind (Option.bind (choices response) index0)
                                   choice_message) message_content)
                          (''(Aucune r'' @ [CHR 0xC3, CHR 0xA9] @ ''ponse GPT)'')
                  in \<lparr>res = json [(''translation'', JStr translation)],
                      calls = [prompt], console = []\<rparr>)))"

subsection \<open>POST /api/translate/deepseek\<close>

text \<open>
  Lines 157 to 183 of the copy with four routes: the same client class pointed at
  \<^verbatim>\<open>https://api.deepseek.com\<close>, then
  \<^verbatim>\<open>response.choices?.[0]?.message?.content || "(Aucune r.ponse DeepSeek)"\<close>.
\<close>

definition catch_deepseek :: "js_error \<Rightarrow> string list \<Rightarrow> outcome" where
  "catch_deepseek error made =
     \<lparr>res = status_json 500 [(''error'', JStr ''Erreur lors de la traduction via DeepSeek'')],
      calls = made,
      console = [[''Erreur DeepSeek:'', message error]]\<rparr>"

definition translate_deepseek ::
  "(string \<times> jsval) list \<Rightarrow> (string \<Rightarrow> js_error + chat_completion) \<Rightarrow> outcome" where
  "translate_deepseek req_body create =
     (let text = field req_body ''text'';
          targetLanguage = field req_body ''targetLanguage'';
          instructions = field req_body ''instructions''
      in
      if \<not> truthy text \<or> \<not> truthy targetLanguage then
        \<lparr>res = status_json 400 [(''error'', JStr ''Champs text et targetLanguage requis.'')],
         calls = [], console = []\<rparr>
      else
        case (if truthy instructions
              then template [Lit ''Instructions: '', Sub instructions,
                             Lit ''\<newline>\<newline>Traduire ce texte en '', Sub targetLanguage,
                             Lit '':\<newline>'', Sub text]
              else template [Lit ''Traduire ce texte en '', Sub targetLanguage,
                             Lit '':\<newline>'', Sub text]) of
          Inl error \<Rightarrow> catch_deepseek error []
        | Inr prompt \<Rightarrow>
            (case create prompt of
               Inl error \<Rightarrow> catch_deepseek error [prompt]
             | Inr response \<Rightarrow>
                 (let translation =
                        or_else (Option.bind (Option.bind (Option.bind (choices response) index0)
                                   choice_message) message_content)
                          (''(Aucune r'' @ [CHR 0xC3, CHR 0xA9] @ ''ponse DeepSeek)'')
                  in \<lparr>res = json [(''translation'', JStr translation)],
                      calls = [prompt], console = []\<rparr>)))"

section \<open>The prompt step, and the vocabulary of the properties\<close>

text \<open>
  Between validation and the provider call, every handler evaluates the same conditional
  template. \<open>request_prompt\<close> is that step on its own: \<open>None\<close> when validation rejects
  the request, otherwise the prompt or the error an interpolation throws.
  \<open>request_calls\<close> lists the prompts that reach a provider.
\<close>

definition request_prompt :: "(string \<times> jsval) list \<Rightarrow> (js_error + string) option" where
  "request_prompt req_body =
     (let text = field req_body ''text'';
          targetLanguage = field req_body ''targetLanguage'';
          instructions = field req_body ''instructions''
      in
      if \<not> truthy text \<or> \<not> truthy targetLanguage then None
      else
        Some (if truthy instructions
              then template [Lit ''Instructions: '', Sub instructions,
                             Lit ''\<newline>\<newline>Traduire ce texte en '', Sub targetLanguage,
                             Lit '':\<newline>'', Sub text]
              else template [Lit ''Traduire ce texte en '', Sub targetLanguage,
                             Lit '':\<newline>'', Sub text]))"

definition request_calls :: "(string \<times> jsval) list \<Rightarrow> string list" where
  "request_calls req_body =
     (case request_prompt req_body of
        None \<Rightarrow> []
      | Some (Inl error) \<Rightarrow> []
      | Some (Inr prompt) \<Rightarrow> [prompt])"

text \<open>
  The Prompt Builder as the specification words it (section 4.2, with the data model's
  ``empty means absent'' for \<open>instructions\<close>), kept apart from the handlers' own template
  so that the two can be compared.
\<close>

definition prompt_builder :: "string \<Rightarrow> string \<Rightarrow> string option \<Rightarrow> string" where
  "prompt_builder text targetLanguage instructions =
     (case instructions of
        Some i \<Rightarrow>
          if i \<noteq> []
          then ''Instructions: '' @ i @ ''\<newline>\<newline>Traduire ce texte en '' @ targetLanguage
                 @ '':\<newline>'' @ text
          else ''Traduire ce texte en '' @ targetLanguage @ '':\<newline>'' @ text
      | None \<Rightarrow> ''Traduire ce texte en '' @ targetLanguage @ '':\<newline>'' @ text)"

text \<open>Stub providers that answer with the prompt they were given.\<close>

definition echo_gemini :: "string \<Rightarrow> js_error + generate_content_result" where
  "echo_gemini prompt = Inr (GenerateContentResult (GenerationResponse (Inr prompt)))"

definition echo_claude :: "string \<Rightarrow> js_error + claude_message" where
  "echo_claude prompt = Inr (ClaudeMessage (Some [ContentBlock (Some prompt)]))"

definition echo_chat :: "string \<Rightarrow> js_error + chat_completion" where
  "echo_chat prompt = Inr (ChatCompletion (Some [Choice (Some (ChatMessage (Some prompt)))]))"

text \<open>The three shapes of a response, and what it means to have exactly one of them.\<close>

definition validation_shape :: "http_response \<Rightarrow> bool" where
  "validation_shape r \<longleftrightarrow>
     status r = 400 \<and> body r = [(''error'', JStr ''Champs text et targetLanguage requis.'')]"

definition provider_error_shape :: "string \<Rightarrow> http_response \<Rightarrow> bool" where
  "provider_error_shape msg r \<longleftrightarrow> status r = 500 \<and> body r = [(''error'', JStr msg)]"

definition translation_shape :: "http_response \<Rightarrow> bool" where
  "translation_shape r \<longleftrightarrow>
     status r = 200 \<and> (case body r of [(k, JStr s)] \<Rightarrow> k = ''translation'' | _ \<Rightarrow> False)"

definition exactly_one :: "bool list \<Rightarrow> bool" where
  "exactly_one bs \<longleftrightarrow> length (filter (\<lambda>b. b) bs) = 1"

definition has_key :: "string \<Rightarrow> http_response \<Rightarrow> bool" where
  "has_key k r \<longleftrightarrow> map_of (body r) k \<noteq> None"

definition three_shapes :: "string \<Rightarrow> http_response \<Rightarrow> bool" where
  "three_shapes msg r \<longleftrightarrow>
     exactly_one [validation_shape r, provider_error_shape msg r, translation_shape r]
     \<and> \<not> (has_key ''error'' r \<and> has_key ''translation'' r)
     \<and> (status r = 200 \<or> status r = 400 \<or> status r = 500)"

section \<open>What each handler hands to its provider\<close>

text \<open>Each handler, read as what it does with the outcome of the prompt step.\<close>

lemma translate_gemini_unfold:
  "translate_gemini b g =
     (case request_prompt b of
        None \<Rightarrow>
          \<lparr>res = \<lparr>status = 400,
                  body = [(''error'', JStr ''Champs text et targetLanguage requis.'')]\<rparr>,
           calls = [], console = []\<rparr>
      | Some (Inl e) \<Rightarrow> catch_gemini e []
      | Some (Inr p) \<Rightarrow>
          (case g p of
             Inl e \<Rightarrow> catch_gemini e [p]
           | Inr r \<Rightarrow>
               (case response_text (result_response r) of
                  Inl e \<Rightarrow> catch_gemini e [p]
                | Inr s \<Rightarrow>
                    \<lparr>res = \<lparr>status = 200, body = [(''translation'', JStr s)]\<rparr>,
                     calls = [p], console = []\<rparr>)))"
  by (simp add: translate_gemini_def request_prompt_def json_def status_json_def Let_def
        del: template.simps split: sum.splits)

lemma translate_claude_unfold:
  "translate_claude b c =
     (case request_prompt b of
        None \<Rightarrow>
          \<lparr>res = \<lparr>status = 400,
                  body = [(''error'', JStr ''Champs text et targetLanguage requis.'')]\<rparr>,
           calls = [], console = []\<rparr>
      | Some (Inl e) \<Rightarrow> catch_claude e []
      | Some (Inr p) \<Rightarrow>
          (case c p of
             Inl e \<Rightarrow> catch_claude e [p]
           | Inr r \<Rightarrow>
               \<lparr>res = \<lparr>status = 200,
                       body = [(''translation'',
                         JStr (or_else (Option.bind (Option.bind (content r) index0) block_text)
                                (''(Aucune r'' @ [CHR 0xC3, CHR 0xA9] @ ''ponse Claude)'')))]\<rparr>,
                calls = [p], console = []\<rparr>))"
  by (simp add: translate_claude_def request_prompt_def json_def status_json_def Let_def
        del: template.simps split: sum.splits)

lemma translate_openai_unfold:
  "translate_openai b a =
     (case request_prompt b of
        None \<Rightarrow>
          \<lparr>res = \<lparr>status = 400,
                  body = [(''error'', JStr ''Champs text et targetLanguage requis.'')]\<rparr>,
           calls = [], console = []\<rparr>
      | Some (Inl e) \<Rightarrow> catch_openai e []
      | Some (Inr p) \<Rightarrow>
          (case a p of
             Inl e \<Rightarrow> catch_openai e [p]
           | Inr r \<Rightarrow>
               \<lparr>res = \<lparr>status = 200,
                       body = [(''translation'',
                         JStr (or_else (Option.bind (Option.bind (Option.bind (choices r) index0)
                                          choice_message) message_content)
                                (''(Aucune r'' @ [CHR 0xC3, CHR 0xA9] @ ''ponse GPT)'')))]\<rparr>,
                calls = [p], console = []\<rparr>))"
  by (simp add: translate_openai_def request_prompt_def json_def status_json_def Let_def
        del: template.simps split: sum.splits)

lemma translate_deepseek_unfold:
  "translate_deepseek b d =
     (case request_prompt b of
        None \<Rightarrow>
          \<lparr>res = \<lparr>status = 400,
                  body = [(''error'', JStr ''Champs text et targetLanguage requis.'')]\<rparr>,
           calls = [], console = []\<rparr>
      | Some (Inl e) \<Rightarrow> catch_deepseek e []
      | Some (Inr p) \<Rightarrow>
          (case d p of
             Inl e \<Rightarrow> catch_deepseek e [p]
           | Inr r \<Rightarrow>
               \<lparr>res = \<lparr>status = 200,
                       body = [(''translation'',
                         JStr (or_else (Option.bind (Option.bind (Option.bind (choices r) index0)
                                          choice_message) message_content)
                                (''(Aucune r'' @ [CHR 0xC3, CHR 0xA9] @ ''ponse DeepSeek)'')))]\<rparr>,
                calls = [p], console = []\<rparr>))"
  by (simp add: translate_deepseek_def request_prompt_def json_def status_json_def Let_def
        del: template.simps split: sum.splits)

lemma calls_gemini: "calls (translate_gemini b g) = request_calls b"
  by (simp add: translate_gemini_unfold request_calls_def catch_gemini_def
        split: option.splits sum.splits)

lemma calls_claude: "calls (translate_claude b c) = request_calls b"
  by (simp add: translate_claude_unfold request_calls_def catch_claude_def
        split: option.splits sum.splits)

lemma calls_openai: "calls (translate_openai b a) = request_calls b"
  by (simp add: translate_openai_unfold request_calls_def catch_openai_def
        split: option.splits sum.splits)

lemma calls_deepseek: "calls (translate_deepseek b d) = request_calls b"
  by (simp add: translate_deepseek_unfold request_calls_def catch_deepseek_def
        split: option.splits sum.splits)

lemma request_calls_single: "request_calls b = [p] \<longleftrightarrow> request_prompt b = Some (Inr p)"
  by (simp add: request_calls_def split: option.splits sum.splits)

lemma request_calls_plain:
  assumes "field b ''text'' = JStr t" "t \<noteq> []"
    and "field b ''targetLanguage'' = JStr l" "l \<noteq> []"
    and "\<not> truthy (field b ''instructions'')"
  shows "request_calls b = [''Traduire ce texte en '' @ l @ '':\<newline>'' @ t]"
  using assms by (simp add: request_calls_def request_prompt_def Let_def)

lemma request_calls_instructed:
  assumes "field b ''text'' = JStr t" "t \<noteq> []"
    and "field b ''targetLanguage'' = JStr l" "l \<noteq> []"
    and "field b ''instructions'' = JStr i" "i \<noteq> []"
  shows "request_calls b =
    [''Instructions: '' @ i @ ''\<newline>\<newline>Traduire ce texte en '' @ l @ '':\<newline>'' @ t]"
  using assms by (simp add: request_calls_def request_prompt_def Let_def)

lemma request_calls_builder:
  assumes "field b ''text'' = JStr t" "t \<noteq> []"
    and "field b ''targetLanguage'' = JStr l" "l \<noteq> []"
    and "field b ''instructions'' = (case i of None \<Rightarrow> JUndefined | Some s \<Rightarrow> JStr s)"
  shows "request_calls b = [prompt_builder t l i]"
  using assms by (simp add: request_calls_def request_prompt_def prompt_builder_def Let_def split: option.splits)

lemma prompt_builder_nonempty: "prompt_builder t l i \<noteq> []"
  by (simp add: prompt_builder_def split: option.splits)

text \<open>
  The fields need not be strings: any truthy value passes validation and is interpolated
  by \<open>toString\<close>. A value whose interpolation throws (an object with a member named
  \<^verbatim>\<open>toString\<close>) ends the request in the \<^verbatim>\<open>catch\<close> branch before any provider call.
\<close>

lemma request_calls_interpolated:
  assumes "truthy (field b ''text'')" and "truthy (field b ''targetLanguage'')"
    and "toString (field b ''targetLanguage'') = Inr l" and "toString (field b ''text'') = Inr t"
  shows "request_calls b =
    (if truthy (field b ''instructions'')
     then (case toString (field b ''instructions'') of
             Inl e \<Rightarrow> []
           | Inr i \<Rightarrow>
               [''Instructions: '' @ i @ ''\<newline>\<newline>Traduire ce texte en '' @ l @ '':\<newline>'' @ t])
     else [''Traduire ce texte en '' @ l @ '':\<newline>'' @ t])"
  using assms
  by (simp add: request_calls_def request_prompt_def Let_def split: sum.splits)

lemma interpolation_throw_is_500:
  assumes "truthy (field b ''text'')" and "truthy (field b ''targetLanguage'')"
    and "toString (field b ''text'') = Inl e \<or> toString (field b ''targetLanguage'') = Inl e"
  shows "request_calls b = []"
    and "res (translate_gemini b g) =
      \<lparr>status = 500, body = [(''error'', JStr ''Erreur lors de la traduction via Gemini'')]\<rparr>"
    and "res (translate_claude b c) =
      \<lparr>status = 500, body = [(''error'', JStr ''Erreur lors de la traduction via Claude'')]\<rparr>"
    and "res (translate_openai b a) =
      \<lparr>status = 500, body = [(''error'', JStr ''Erreur lors de la traduction via OpenAI'')]\<rparr>"
    and "res (translate_deepseek b d) =
      \<lparr>status = 500, body = [(''error'', JStr ''Erreur lors de la traduction via DeepSeek'')]\<rparr>"
proof -
  from assms have "\<exists>x. request_prompt b = Some (Inl x)"
    by (auto simp add: request_prompt_def Let_def split: sum.splits)
  then obtain x where thrown: "request_prompt b = Some (Inl x)" ..
  then show "request_calls b = []"
    by (simp add: request_calls_def)
  from thrown show "res (translate_gemini b g) =
      \<lparr>status = 500, body = [(''error'', JStr ''Erreur lors de la traduction via Gemini'')]\<rparr>"
    by (simp add: translate_gemini_unfold catch_gemini_def status_json_def)
  from thrown show "res (translate_claude b c) =
      \<lparr>status = 500, body = [(''error'', JStr ''Erreur lors de la traduction via Claude'')]\<rparr>"
    by (simp add: translate_claude_unfold catch_claude_def status_json_def)
  from thrown show "res (translate_openai b a) =
      \<lparr>status = 500, body = [(''error'', JStr ''Erreur lors de la traduction via OpenAI'')]\<rparr>"
    by (simp add: translate_openai_unfold catch_openai_def status_json_def)
  from thrown show "res (translate_deepseek b d) =
      \<lparr>status = 500, body = [(''error'', JStr ''Erreur lors de la traduction via DeepSeek'')]\<rparr>"
    by (simp add: translate_deepseek_unfold catch_deepseek_def status_json_def)
qed

section \<open>Validation\<close>

lemma gemini_rejects:
  "\<not> truthy (field b ''text'') \<or> \<not> truthy (field b ''targetLanguage'') \<Longrightarrow>
   translate_gemini b g =
     \<lparr>res = \<lparr>status = 400, body = [(''error'', JStr ''Champs text et targetLanguage requis.'')]\<rparr>,
      calls = [], console = []\<rparr>"
  by (auto simp add: translate_gemini_def status_json_def Let_def simp del: template.simps)

lemma claude_rejects:
  "\<not> truthy (field b ''text'') \<or> \<not> truthy (field b ''targetLanguage'') \<Longrightarrow>
   translate_claude b c =
     \<lparr>res = \<lparr>status = 400, body = [(''error'', JStr ''Champs text et targetLanguage requis.'')]\<rparr>,
      calls = [], console = []\<rparr>"
  by (auto simp add: translate_claude_def status_json_def Let_def simp del: template.simps)

lemma openai_rejects:
  "\<not> truthy (field b ''text'') \<or> \<not> truthy (field b ''targetLanguage'') \<Longrightarrow>
   translate_openai b a =
     \<lparr>res = \<lparr>status = 400, body = [(''error'', JStr ''Champs text et targetLanguage requis.'')]\<rparr>,
      calls = [], console = []\<rparr>"
  by (auto simp add: translate_openai_def status_json_def Let_def simp del: template.simps)

lemma deepseek_rejects:
  "\<not> truthy (field b ''text'') \<or> \<not> truthy (field b ''targetLanguage'') \<Longrightarrow>
   translate_deepseek b d =
     \<lparr>res = \<lparr>status = 400, body = [(''error'', JStr ''Champs text et targetLanguage requis.'')]\<rparr>,
      calls = [], console = []\<rparr>"
  by (auto simp add: translate_deepseek_def status_json_def Let_def simp del: template.simps)

text \<open>
  Claim C1. A request whose \<open>text\<close> or \<open>targetLanguage\<close> is missing or falsy gets, from
  each of the four endpoints, status 400 with the body
  \<^verbatim>\<open>{"error": "Champs text et targetLanguage requis."}\<close>, and no provider call is made.
\<close>

theorem validation_rejects_missing_fields:
  assumes "\<not> truthy (field b ''text'') \<or> \<not> truthy (field b ''targetLanguage'')"
  shows "res (translate_gemini b g) =
           \<lparr>status = 400, body = [(''error'', JStr ''Champs text et targetLanguage requis.'')]\<rparr>
       \<and> calls (translate_gemini b g) = []
       \<and> res (translate_claude b c) =
           \<lparr>status = 400, body = [(''error'', JStr ''Champs text et targetLanguage requis.'')]\<rparr>
       \<and> calls (translate_claude b c) = []
       \<and> res (translate_openai b a) =
           \<lparr>status = 400, body = [(''error'', JStr ''Champs text et targetLanguage requis.'')]\<rparr>
       \<and> calls (translate_openai b a) = []
       \<and> res (translate_deepseek b d) =
           \<lparr>status = 400, body = [(''error'', JStr ''Champs text et targetLanguage requis.'')]\<rparr>
       \<and> calls (translate_deepseek b d) = []"
  by (simp add: gemini_rejects [OF assms] claude_rejects [OF assms] openai_rejects [OF assms]
        deepseek_rejects [OF assms])

text \<open>The body \<^verbatim>\<open>{"text": "", "targetLanguage": "English"}\<close>, sent to each endpoint.\<close>

theorem validation_rejects_missing_fields_witness:
  "field [(''text'', JStr ''''), (''targetLanguage'', JStr ''English'')] ''text'' = JStr ''''
   \<and> res (translate_gemini [(''text'', JStr ''''), (''targetLanguage'', JStr ''English'')]
           echo_gemini) =
       \<lparr>status = 400, body = [(''error'', JStr ''Champs text et targetLanguage requis.'')]\<rparr>
   \<and> calls (translate_claude [(''text'', JStr ''''), (''targetLanguage'', JStr ''English'')]
           echo_claude) = []
   \<and> calls (translate_openai [(''text'', JStr ''''), (''targetLanguage'', JStr ''English'')]
           echo_chat) = []
   \<and> res (translate_deepseek [(''text'', JStr ''''), (''targetLanguage'', JStr ''English'')]
           echo_chat) =
       \<lparr>status = 400, body = [(''error'', JStr ''Champs text et targetLanguage requis.'')]\<rparr>"
proof -
  have empty: "field [(''text'', JStr ''''), (''targetLanguage'', JStr ''English'')] ''text'' = JStr ''''"
    by (simp add: field_def)
  then have falsy:
    "\<not> truthy (field [(''text'', JStr ''''), (''targetLanguage'', JStr ''English'')] ''text'')
     \<or> \<not> truthy (field [(''text'', JStr ''''), (''targetLanguage'', JStr ''English'')]
            ''targetLanguage'')"
    by simp
  show ?thesis
    using empty
      validation_rejects_missing_fields [OF falsy, of echo_gemini echo_claude echo_chat echo_chat]
    by simp
qed

section \<open>Prompt construction\<close>

text \<open>
  Claim C2. For a valid request (non-empty \<open>text\<close> and \<open>targetLanguage\<close>) whose
  \<open>instructions\<close> is absent or empty, the prompt handed to the provider is exactly
  \<^verbatim>\<open>"Traduire ce texte en {targetLanguage}:\n{text}"\<close>, at each of the four endpoints.
\<close>

theorem prompt_without_instructions:
  assumes "field b ''text'' = JStr t" "t \<noteq> []"
    and "field b ''targetLanguage'' = JStr l" "l \<noteq> []"
    and "\<not> truthy (field b ''instructions'')"
  shows "calls (translate_gemini b g) = [''Traduire ce texte en '' @ l @ '':\<newline>'' @ t]
       \<and> calls (translate_claude b c) = [''Traduire ce texte en '' @ l @ '':\<newline>'' @ t]
       \<and> calls (translate_openai b a) = [''Traduire ce texte en '' @ l @ '':\<newline>'' @ t]
       \<and> calls (translate_deepseek b d) = [''Traduire ce texte en '' @ l @ '':\<newline>'' @ t]"
  using request_calls_plain [OF assms]
  by (simp only: calls_gemini calls_claude calls_openai calls_deepseek)

text \<open>
  The body \<^verbatim>\<open>{"text": "Bonjour", "targetLanguage": "English", "instructions": ""}\<close>.
\<close>

theorem prompt_without_instructions_witness:
  "field [(''text'', JStr ''Bonjour''), (''targetLanguage'', JStr ''English''),
          (''instructions'', JStr '''')] ''instructions'' = JStr ''''
   \<and> calls (translate_gemini [(''text'', JStr ''Bonjour''), (''targetLanguage'', JStr ''English''),
          (''instructions'', JStr '''')] echo_gemini) =
       [''Traduire ce texte en English:\<newline>Bonjour'']
   \<and> calls (translate_deepseek [(''text'', JStr ''Bonjour''), (''targetLanguage'', JStr ''English''),
          (''instructions'', JStr '''')] echo_chat) =
       [''Traduire ce texte en English:\<newline>Bonjour'']"
proof -
  let ?b = "[(''text'', JStr ''Bonjour''), (''targetLanguage'', JStr ''English''),
             (''instructions'', JStr '''')]"
  have t: "field ?b ''text'' = JStr ''Bonjour''" by (simp add: field_def)
  have l: "field ?b ''targetLanguage'' = JStr ''English''" by (simp add: field_def)
  have i: "field ?b ''instructions'' = JStr ''''" by (simp add: field_def)
  have absent: "\<not> truthy (field ?b ''instructions'')" by (simp add: i)
  have t_ok: "''Bonjour'' \<noteq> []" by simp
  have l_ok: "''English'' \<noteq> []" by simp
  show ?thesis
    using i prompt_without_instructions [OF t t_ok l l_ok absent,
        of echo_gemini echo_claude echo_chat echo_chat]
    by simp
qed

text \<open>
  Claim C3. For a valid request with non-empty \<open>instructions\<close>, the prompt handed to the
  provider is exactly
  \<^verbatim>\<open>"Instructions: {instructions}\n\nTraduire ce texte en {targetLanguage}:\n{text}"\<close>, at
  each of the four endpoints; for text \<^verbatim>\<open>Bonjour\<close>, target language \<^verbatim>\<open>English\<close> and
  instructions \<^verbatim>\<open>Be formal\<close> the Claude endpoint hands over
  \<^verbatim>\<open>"Instructions: Be formal\n\nTraduire ce texte en English:\nBonjour"\<close>.
\<close>

theorem prompt_with_instructions:
  assumes "field b ''text'' = JStr t" "t \<noteq> []"
    and "field b ''targetLanguage'' = JStr l" "l \<noteq> []"
    and "field b ''instructions'' = JStr i" "i \<noteq> []"
  shows "calls (translate_gemini b g) =
           [''Instructions: '' @ i @ ''\<newline>\<newline>Traduire ce texte en '' @ l @ '':\<newline>'' @ t]
       \<and> calls (translate_claude b c) =
           [''Instructions: '' @ i @ ''\<newline>\<newline>Traduire ce texte en '' @ l @ '':\<newline>'' @ t]
       \<and> calls (translate_openai b a) =
           [''Instructions: '' @ i @ ''\<newline>\<newline>Traduire ce texte en '' @ l @ '':\<newline>'' @ t]
       \<and> calls (translate_deepseek b d) =
           [''Instructions: '' @ i @ ''\<newline>\<newline>Traduire ce texte en '' @ l @ '':\<newline>'' @ t]
       \<and> calls (translate_claude
             [(''text'', JStr ''Bonjour''), (''targetLanguage'', JStr ''English''),
              (''instructions'', JStr ''Be formal'')] c) =
           [''Instructions: Be formal\<newline>\<newline>Traduire ce texte en English:\<newline>Bonjour'']"
proof -
  have "request_calls [(''text'', JStr ''Bonjour''), (''targetLanguage'', JStr ''English''),
              (''instructions'', JStr ''Be formal'')] =
           [''Instructions: Be formal\<newline>\<newline>Traduire ce texte en English:\<newline>Bonjour'']"
    by (simp add: request_calls_def request_prompt_def field_def Let_def)
  with request_calls_instructed [OF assms] show ?thesis
    by (simp only: calls_gemini calls_claude calls_openai calls_deepseek simp_thms)
qed

text \<open>
  The body \<^verbatim>\<open>{"text": "Hola", "targetLanguage": "Deutsch", "instructions": "Kurz"}\<close>.
\<close>

theorem prompt_with_instructions_witness:
  "field [(''text'', JStr ''Hola''), (''targetLanguage'', JStr ''Deutsch''),
          (''instructions'', JStr ''Kurz'')] ''instructions'' = JStr ''Kurz''
   \<and> calls (translate_openai [(''text'', JStr ''Hola''), (''targetLanguage'', JStr ''Deutsch''),
          (''instructions'', JStr ''Kurz'')] echo_chat) =
       [''Instructions: Kurz\<newline>\<newline>Traduire ce texte en Deutsch:\<newline>Hola'']"
proof -
  let ?b = "[(''text'', JStr ''Hola''), (''targetLanguage'', JStr ''Deutsch''),
             (''instructions'', JStr ''Kurz'')]"
  have t: "field ?b ''text'' = JStr ''Hola''" by (simp add: field_def)
  have l: "field ?b ''targetLanguage'' = JStr ''Deutsch''" by (simp add: field_def)
  have i: "field ?b ''instructions'' = JStr ''Kurz''" by (simp add: field_def)
  have t_ok: "''Hola'' \<noteq> []" by simp
  have l_ok: "''Deutsch'' \<noteq> []" by simp
  have i_ok: "''Kurz'' \<noteq> []" by simp
  show ?thesis
    using i prompt_with_instructions [OF t t_ok l l_ok i i_ok,
        of echo_gemini echo_claude echo_chat echo_chat]
    by simp
qed

text \<open>
  Claim C4. The prompt construction is the same at all four endpoints: for every request
  body, the Gemini, Claude, OpenAI and DeepSeek handlers hand the same prompt to their
  provider (or all hand over none), whatever the providers answer.
\<close>

theorem prompt_same_for_all_providers:
  "calls (translate_gemini b g) = calls (translate_claude b c)
   \<and> calls (translate_claude b c) = calls (translate_openai b a)
   \<and> calls (translate_openai b a) = calls (translate_deepseek b d)"
  by (simp only: calls_gemini calls_claude calls_openai calls_deepseek)

text \<open>The body \<^verbatim>\<open>{"text": 5, "targetLanguage": ["fr", "be"]}\<close>, with providers that differ.\<close>

theorem prompt_same_for_all_providers_witness:
  "calls (translate_gemini [(''text'', JNum 5), (''targetLanguage'', JArr [JStr ''fr'', JStr ''be''])]
      echo_gemini) = [''Traduire ce texte en fr,be:\<newline>5'']
   \<and> calls (translate_gemini [(''text'', JNum 5), (''targetLanguage'', JArr [JStr ''fr'', JStr ''be''])]
      echo_gemini) =
     calls (translate_claude [(''text'', JNum 5), (''targetLanguage'', JArr [JStr ''fr'', JStr ''be''])]
      (\<lambda>p. Inl (JsError ''overloaded'')))
   \<and> calls (translate_claude [(''text'', JNum 5), (''targetLanguage'', JArr [JStr ''fr'', JStr ''be''])]
      (\<lambda>p. Inl (JsError ''overloaded''))) =
     calls (translate_openai [(''text'', JNum 5), (''targetLanguage'', JArr [JStr ''fr'', JStr ''be''])]
      echo_chat)
   \<and> calls (translate_openai [(''text'', JNum 5), (''targetLanguage'', JArr [JStr ''fr'', JStr ''be''])]
      echo_chat) =
     calls (translate_deepseek [(''text'', JNum 5), (''targetLanguage'', JArr [JStr ''fr'', JStr ''be''])]
      (\<lambda>p. Inr (ChatCompletion None)))"
proof -
  let ?b = "[(''text'', JNum 5), (''targetLanguage'', JArr [JStr ''fr'', JStr ''be''])]"
  have five: "number_toString 5 = ''5''"
    by code_simp
  have "calls (translate_gemini ?b echo_gemini) = [''Traduire ce texte en fr,be:\<newline>5'']"
    by (simp add: calls_gemini request_calls_def request_prompt_def field_def Let_def five)
  then show ?thesis
    using prompt_same_for_all_providers [of ?b echo_gemini "\<lambda>p. Inl (JsError ''overloaded'')"
        echo_chat "\<lambda>p. Inr (ChatCompletion None)"]
    by simp
qed

section \<open>Provider failures\<close>

lemma gemini_catch_res:
  "res (catch_gemini e made) =
     \<lparr>status = 500, body = [(''error'', JStr ''Erreur lors de la traduction via Gemini'')]\<rparr>"
  by (simp add: catch_gemini_def status_json_def)

lemma claude_catch_res:
  "res (catch_claude e made) =
     \<lparr>status = 500, body = [(''error'', JStr ''Erreur lors de la traduction via Claude'')]\<rparr>"
  by (simp add: catch_claude_def status_json_def)

lemma openai_catch_res:
  "res (catch_openai e made) =
     \<lparr>status = 500, body = [(''error'', JStr ''Erreur lors de la traduction via OpenAI'')]\<rparr>"
  by (simp add: catch_openai_def status_json_def)

lemma deepseek_catch_res:
  "res (catch_deepseek e made) =
     \<lparr>status = 500, body = [(''error'', JStr ''Erreur lors de la traduction via DeepSeek'')]\<rparr>"
  by (simp add: catch_deepseek_def status_json_def)

text \<open>
  Claim C5. When the provider call throws or rejects for a valid request, the endpoint
  answers 500 with that provider's fixed message as the whole body; whatever error the
  provider raised (\<open>fail p\<close>, for any \<open>fail\<close>), none of it is in the response. For Gemini
  both the rejected \<^verbatim>\<open>generateContent\<close> and the throwing \<^verbatim>\<open>text()\<close> are covered.
\<close>

theorem provider_failure_is_500:
  assumes "truthy (field b ''text'')" and "truthy (field b ''targetLanguage'')"
  shows "res (translate_gemini b (\<lambda>p. Inl (fail p))) =
           \<lparr>status = 500, body = [(''error'', JStr ''Erreur lors de la traduction via Gemini'')]\<rparr>
       \<and> res (translate_gemini b
             (\<lambda>p. Inr (GenerateContentResult (GenerationResponse (Inl (fail p)))))) =
           \<lparr>status = 500, body = [(''error'', JStr ''Erreur lors de la traduction via Gemini'')]\<rparr>
       \<and> res (translate_claude b (\<lambda>p. Inl (fail p))) =
           \<lparr>status = 500, body = [(''error'', JStr ''Erreur lors de la traduction via Claude'')]\<rparr>
       \<and> res (translate_openai b (\<lambda>p. Inl (fail p))) =
           \<lparr>status = 500, body = [(''error'', JStr ''Erreur lors de la traduction via OpenAI'')]\<rparr>
       \<and> res (translate_deepseek b (\<lambda>p. Inl (fail p))) =
           \<lparr>status = 500, body = [(''error'', JStr ''Erreur lors de la traduction via DeepSeek'')]\<rparr>"
proof -
  from assms obtain built where "request_prompt b = Some built"
    by (simp add: request_prompt_def Let_def)
  then show ?thesis
    by (cases built)
      (simp_all add: translate_gemini_unfold translate_claude_unfold translate_openai_unfold
        translate_deepseek_unfold gemini_catch_res claude_catch_res openai_catch_res
        deepseek_catch_res)
qed

text \<open>
  A Claude client rejecting with \<^verbatim>\<open>401 invalid x-api-key\<close>: the detail is logged and the
  response carries the fixed message only.
\<close>

theorem provider_failure_is_500_witness:
  "truthy (field [(''text'', JStr ''Bonjour''), (''targetLanguage'', JStr ''English'')] ''text'')
   \<and> truthy (field [(''text'', JStr ''Bonjour''), (''targetLanguage'', JStr ''English'')]
        ''targetLanguage'')
   \<and> res (translate_claude [(''text'', JStr ''Bonjour''), (''targetLanguage'', JStr ''English'')]
        (\<lambda>p. Inl (JsError ''401 invalid x-api-key''))) =
       \<lparr>status = 500, body = [(''error'', JStr ''Erreur lors de la traduction via Claude'')]\<rparr>
   \<and> console (translate_claude [(''text'', JStr ''Bonjour''), (''targetLanguage'', JStr ''English'')]
        (\<lambda>p. Inl (JsError ''401 invalid x-api-key''))) =
       [[''Erreur Claude:'', ''401 invalid x-api-key'']]"
proof -
  let ?b = "[(''text'', JStr ''Bonjour''), (''targetLanguage'', JStr ''English'')]"
  have t: "truthy (field ?b ''text'')" by (simp add: field_def)
  have l: "truthy (field ?b ''targetLanguage'')" by (simp add: field_def)
  have logged: "console (translate_claude ?b (\<lambda>p. Inl (JsError ''401 invalid x-api-key''))) =
       [[''Erreur Claude:'', ''401 invalid x-api-key'']]"
    by (simp add: translate_claude_def catch_claude_def field_def Let_def)
  show ?thesis
    using t l logged
      provider_failure_is_500 [OF t l, of "\<lambda>p. JsError ''401 invalid x-api-key''"]
    by simp
qed

section \<open>Unwrapping the provider's answer\<close>

lemma claude_success:
  assumes "calls (translate_claude b c) = [p]" and "c p = Inr r"
  shows "res (translate_claude b c) =
     \<lparr>status = 200,
      body = [(''translation'',
               JStr (or_else (Option.bind (Option.bind (content r) index0) block_text)
                      (''(Aucune r'' @ [CHR 0xC3, CHR 0xA9] @ ''ponse Claude)'')))]\<rparr>"
proof -
  from assms(1) have "request_prompt b = Some (Inr p)"
    by (simp add: calls_claude request_calls_single)
  with assms(2) show ?thesis
    by (simp add: translate_claude_unfold)
qed

lemma openai_success:
  assumes "calls (translate_openai b a) = [p]" and "a p = Inr r"
  shows "res (translate_openai b a) =
     \<lparr>status = 200,
      body = [(''translation'',
               JStr (or_else (Option.bind (Option.bind (Option.bind (choices r) index0)
                                choice_message) message_content)
                      (''(Aucune r'' @ [CHR 0xC3, CHR 0xA9] @ ''ponse GPT)'')))]\<rparr>"
proof -
  from assms(1) have "request_prompt b = Some (Inr p)"
    by (simp add: calls_openai request_calls_single)
  with assms(2) show ?thesis
    by (simp add: translate_openai_unfold)
qed

lemma deepseek_success:
  assumes "calls (translate_deepseek b d) = [p]" and "d p = Inr r"
  shows "res (translate_deepseek b d) =
     \<lparr>status = 200,
      body = [(''translation'',
               JStr (or_else (Option.bind (Option.bind (Option.bind (choices r) index0)
                                choice_message) message_content)
                      (''(Aucune r'' @ [CHR 0xC3, CHR 0xA9] @ ''ponse DeepSeek)'')))]\<rparr>"
proof -
  from assms(1) have "request_prompt b = Some (Inr p)"
    by (simp add: calls_deepseek request_calls_single)
  with assms(2) show ?thesis
    by (simp add: translate_deepseek_unfold)
qed

lemma gemini_success:
  assumes "calls (translate_gemini b g) = [p]" and "g p = Inr r"
  shows "translate_gemini b g =
     (case response_text (result_response r) of
        Inl e \<Rightarrow>
          \<lparr>res = \<lparr>status = 500,
                  body = [(''error'', JStr ''Erreur lors de la traduction via Gemini'')]\<rparr>,
           calls = [p], console = [[''Erreur Gemini:'', message e]]\<rparr>
      | Inr s \<Rightarrow>
          \<lparr>res = \<lparr>status = 200, body = [(''translation'', JStr s)]\<rparr>,
           calls = [p], console = []\<rparr>)"
proof -
  from assms(1) have "request_prompt b = Some (Inr p)"
    by (simp add: calls_gemini request_calls_single)
  with assms(2) show ?thesis
    by (simp add: translate_gemini_unfold catch_gemini_def status_json_def split: sum.splits)
qed

lemma claude_absent_text:
  assumes "r = ClaudeMessage None \<or> r = ClaudeMessage (Some [])
          \<or> (\<exists>rest. r = ClaudeMessage (Some (ContentBlock None # rest)))
          \<or> (\<exists>rest. r = ClaudeMessage (Some (ContentBlock (Some '''') # rest)))"
  shows "or_else (Option.bind (Option.bind (content r) index0) block_text) ph = ph"
  using assms by (auto simp add: or_else_def index0_def)

lemma chat_absent_content:
  assumes "x = ChatCompletion None \<or> x = ChatCompletion (Some [])
          \<or> (\<exists>rest. x = ChatCompletion (Some (Choice None # rest)))
          \<or> (\<exists>rest. x = ChatCompletion (Some (Choice (Some (ChatMessage None)) # rest)))
          \<or> (\<exists>rest. x = ChatCompletion (Some (Choice (Some (ChatMessage (Some ''''))) # rest)))"
  shows "or_else (Option.bind (Option.bind (Option.bind (choices x) index0)
                    choice_message) message_content) ph = ph"
  using assms by (auto simp add: or_else_def index0_def)

text \<open>
  Claim C6. At the Claude, OpenAI and DeepSeek endpoints, when the provider call succeeds
  but the content it is unwrapped to is absent or empty (no \<open>content\<close>/\<open>choices\<close> list, an
  empty list, a first element without the field, or an empty string), the endpoint
  answers 200 with the provider's placeholder as the translation:
  \<^verbatim>\<open>(Aucune r.ponse Claude)\<close>, \<^verbatim>\<open>(Aucune r.ponse GPT)\<close>, \<^verbatim>\<open>(Aucune r.ponse DeepSeek)\<close>,
  where the dot stands for the e with acute accent of the source, the bytes C3 A9.
\<close>

theorem empty_content_gets_placeholder:
  "(calls (translate_claude b c) = [p] \<and> c p = Inr r
      \<and> (r = ClaudeMessage None \<or> r = ClaudeMessage (Some [])
          \<or> (\<exists>rest. r = ClaudeMessage (Some (ContentBlock None # rest)))
          \<or> (\<exists>rest. r = ClaudeMessage (Some (ContentBlock (Some '''') # rest))))
     \<longrightarrow> res (translate_claude b c) =
           \<lparr>status = 200,
            body = [(''translation'',
                     JStr (''(Aucune r'' @ [CHR 0xC3, CHR 0xA9] @ ''ponse Claude)''))]\<rparr>)
 \<and> (calls (translate_openai b a) = [q] \<and> a q = Inr x
      \<and> (x = ChatCompletion None \<or> x = ChatCompletion (Some [])
          \<or> (\<exists>rest. x = ChatCompletion (Some (Choice None # rest)))
          \<or> (\<exists>rest. x = ChatCompletion (Some (Choice (Some (ChatMessage None)) # rest)))
          \<or> (\<exists>rest. x = ChatCompletion (Some (Choice (Some (ChatMessage (Some ''''))) # rest))))
     \<longrightarrow> res (translate_openai b a) =
           \<lparr>status = 200,
            body = [(''translation'',
                     JStr (''(Aucune r'' @ [CHR 0xC3, CHR 0xA9] @ ''ponse GPT)''))]\<rparr>)
 \<and> (calls (translate_deepseek b d) = [u] \<and> d u = Inr y
      \<and> (y = ChatCompletion None \<or> y = ChatCompletion (Some [])
          \<or> (\<exists>rest. y = ChatCompletion (Some (Choice None # rest)))
          \<or> (\<exists>rest. y = ChatCompletion (Some (Choice (Some (ChatMessage None)) # rest)))
          \<or> (\<exists>rest. y = ChatCompletion (Some (Choice (Some (ChatMessage (Some ''''))) # rest))))
     \<longrightarrow> res (translate_deepseek b d) =
           \<lparr>status = 200,
            body = [(''translation'',
                     JStr (''(Aucune r'' @ [CHR 0xC3, CHR 0xA9] @ ''ponse DeepSeek)''))]\<rparr>)"
proof (intro conjI impI)
  assume h: "calls (translate_claude b c) = [p] \<and> c p = Inr r
      \<and> (r = ClaudeMessage None \<or> r = ClaudeMessage (Some [])
          \<or> (\<exists>rest. r = ClaudeMessage (Some (ContentBlock None # rest)))
          \<or> (\<exists>rest. r = ClaudeMessage (Some (ContentBlock (Some '''') # rest))))"
  then have made: "calls (translate_claude b c) = [p]" and ok: "c p = Inr r"
    by simp_all
  from h claude_absent_text [of r] claude_success [OF made ok]
  show "res (translate_claude b c) =
           \<lparr>status = 200,
            body = [(''translation'',
                     JStr (''(Aucune r'' @ [CHR 0xC3, CHR 0xA9] @ ''ponse Claude)''))]\<rparr>"
    by simp
next
  assume h: "calls (translate_openai b a) = [q] \<and> a q = Inr x
      \<and> (x = ChatCompletion None \<or> x = ChatCompletion (Some [])
          \<or> (\<exists>rest. x = ChatCompletion (Some (Choice None # rest)))
          \<or> (\<exists>rest. x = ChatCompletion (Some (Choice (Some (ChatMessage None)) # rest)))
          \<or> (\<exists>rest. x = ChatCompletion (Some (Choice (Some (ChatMessage (Some ''''))) # rest))))"
  then have made: "calls (translate_openai b a) = [q]" and ok: "a q = Inr x"
    by simp_all
  from h chat_absent_content [of x] openai_success [OF made ok]
  show "res (translate_openai b a) =
           \<lparr>status = 200,
            body = [(''translation'',
                     JStr (''(Aucune r'' @ [CHR 0xC3, CHR 0xA9] @ ''ponse GPT)''))]\<rparr>"
    by simp
next
  assume h: "calls (translate_deepseek b d) = [u] \<and> d u = Inr y
      \<and> (y = ChatCompletion None \<or> y = ChatCompletion (Some [])
          \<or> (\<exists>rest. y = ChatCompletion (Some (Choice None # rest)))
          \<or> (\<exists>rest. y = ChatCompletion (Some (Choice (Some (ChatMessage None)) # rest)))
          \<or> (\<exists>rest. y = ChatCompletion (Some (Choice (Some (ChatMessage (Some ''''))) # rest))))"
  then have made: "calls (translate_deepseek b d) = [u]" and ok: "d u = Inr y"
    by simp_all
  from h chat_absent_content [of y] deepseek_success [OF made ok]
  show "res (translate_deepseek b d) =
           \<lparr>status = 200,
            body = [(''translation'',
                     JStr (''(Aucune r'' @ [CHR 0xC3, CHR 0xA9] @ ''ponse DeepSeek)''))]\<rparr>"
    by simp
qed


text \<open>
  The body \<^verbatim>\<open>{"text": "Bonjour", "targetLanguage": "English"}\<close>, answered by Claude with an
  empty \<open>content\<close> list, by OpenAI with a first message whose \<open>content\<close> is null, and by
  DeepSeek with an empty string.
\<close>

theorem empty_content_gets_placeholder_witness:
  "calls (translate_claude [(''text'', JStr ''Bonjour''), (''targetLanguage'', JStr ''English'')]
      (\<lambda>p. Inr (ClaudeMessage (Some [])))) = [''Traduire ce texte en English:\<newline>Bonjour'']
   \<and> res (translate_claude [(''text'', JStr ''Bonjour''), (''targetLanguage'', JStr ''English'')]
      (\<lambda>p. Inr (ClaudeMessage (Some [])))) =
     \<lparr>status = 200,
      body = [(''translation'', JStr (''(Aucune r'' @ [CHR 0xC3, CHR 0xA9] @ ''ponse Claude)''))]\<rparr>
   \<and> res (translate_openai [(''text'', JStr ''Bonjour''), (''targetLanguage'', JStr ''English'')]
      (\<lambda>p. Inr (ChatCompletion (Some [Choice (Some (ChatMessage None))])))) =
     \<lparr>status = 200,
      body = [(''translation'', JStr (''(Aucune r'' @ [CHR 0xC3, CHR 0xA9] @ ''ponse GPT)''))]\<rparr>
   \<and> res (translate_deepseek [(''text'', JStr ''Bonjour''), (''targetLanguage'', JStr ''English'')]
      (\<lambda>p. Inr (ChatCompletion (Some [Choice (Some (ChatMessage (Some '''')))])))) =
     \<lparr>status = 200,
      body = [(''translation'', JStr (''(Aucune r'' @ [CHR 0xC3, CHR 0xA9] @ ''ponse DeepSeek)''))]\<rparr>"
proof -
  let ?b = "[(''text'', JStr ''Bonjour''), (''targetLanguage'', JStr ''English'')]"
  let ?p = "''Traduire ce texte en English:\<newline>Bonjour''"
  let ?c = "\<lambda>p::string. Inr (ClaudeMessage (Some [])) :: js_error + claude_message"
  let ?a = "\<lambda>p::string. Inr (ChatCompletion (Some [Choice (Some (ChatMessage None))]))
              :: js_error + chat_completion"
  let ?d = "\<lambda>p::string. Inr (ChatCompletion (Some [Choice (Some (ChatMessage (Some '''')))]))
              :: js_error + chat_completion"
  have made: "request_calls ?b = [?p]"
    by (simp add: request_calls_def request_prompt_def field_def Let_def)
  have c: "calls (translate_claude ?b ?c) = [?p]"
    by (simp only: calls_claude made)
  have a: "calls (translate_openai ?b ?a) = [?p]"
    by (simp only: calls_openai made)
  have d: "calls (translate_deepseek ?b ?d) = [?p]"
    by (simp only: calls_deepseek made)
  show ?thesis
    using c a d
      empty_content_gets_placeholder [where b = ?b and c = ?c and p = ?p
        and r = "ClaudeMessage (Some [])" and a = ?a and q = ?p
        and x = "ChatCompletion (Some [Choice (Some (ChatMessage None))])" and d = ?d and u = ?p
        and y = "ChatCompletion (Some [Choice (Some (ChatMessage (Some '''')))])"]
    by simp
qed

text \<open>
  Claim C7. The Gemini endpoint has no placeholder: once \<^verbatim>\<open>generateContent\<close> has
  resolved, whatever string \<^verbatim>\<open>text()\<close> returns, the empty string included, is the
  translation of the 200 response; and when \<^verbatim>\<open>text()\<close> throws, that error reaches the
  \<^verbatim>\<open>catch\<close> branch (it is the one logged, and the response is the 500 of Gemini).
\<close>

theorem gemini_no_placeholder:
  assumes "calls (translate_gemini b g) = [p]"
    and "g p = Inr (GenerateContentResult (GenerationResponse t))"
  shows "translate_gemini b g =
           (case t of
              Inr s \<Rightarrow>
                \<lparr>res = \<lparr>status = 200, body = [(''translation'', JStr s)]\<rparr>,
                 calls = [p], console = []\<rparr>
            | Inl e \<Rightarrow>
                \<lparr>res = \<lparr>status = 500,
                        body = [(''error'', JStr ''Erreur lors de la traduction via Gemini'')]\<rparr>,
                 calls = [p], console = [[''Erreur Gemini:'', message e]]\<rparr>)
       \<and> (t = Inr '''' \<longrightarrow>
            res (translate_gemini b g) = \<lparr>status = 200, body = [(''translation'', JStr '''')]\<rparr>)"
  using gemini_success [OF assms] by (auto split: sum.splits)

text \<open>
  The body \<^verbatim>\<open>{"text": "Bonjour", "targetLanguage": "English"}\<close>, with \<^verbatim>\<open>text()\<close> returning
  the empty string, and with \<^verbatim>\<open>text()\<close> throwing.
\<close>

theorem gemini_no_placeholder_witness:
  "calls (translate_gemini [(''text'', JStr ''Bonjour''), (''targetLanguage'', JStr ''English'')]
      (\<lambda>p. Inr (GenerateContentResult (GenerationResponse (Inr ''''))))) =
     [''Traduire ce texte en English:\<newline>Bonjour'']
   \<and> res (translate_gemini [(''text'', JStr ''Bonjour''), (''targetLanguage'', JStr ''English'')]
      (\<lambda>p. Inr (GenerateContentResult (GenerationResponse (Inr ''''))))) =
     \<lparr>status = 200, body = [(''translation'', JStr '''')]\<rparr>
   \<and> translate_gemini [(''text'', JStr ''Bonjour''), (''targetLanguage'', JStr ''English'')]
      (\<lambda>p. Inr (GenerateContentResult (GenerationResponse (Inl (JsError ''blocked: SAFETY''))))) =
     \<lparr>res = \<lparr>status = 500,
             body = [(''error'', JStr ''Erreur lors de la traduction via Gemini'')]\<rparr>,
      calls = [''Traduire ce texte en English:\<newline>Bonjour''],
      console = [[''Erreur Gemini:'', ''blocked: SAFETY'']]\<rparr>"
proof -
  let ?b = "[(''text'', JStr ''Bonjour''), (''targetLanguage'', JStr ''English'')]"
  let ?p = "''Traduire ce texte en English:\<newline>Bonjour''"
  let ?empty = "\<lambda>p::string. Inr (GenerateContentResult (GenerationResponse (Inr '''')))
                  :: js_error + generate_content_result"
  let ?throws = "\<lambda>p::string.
                   Inr (GenerateContentResult (GenerationResponse (Inl (JsError ''blocked: SAFETY''))))
                   :: js_error + generate_content_result"
  have made: "request_calls ?b = [?p]"
    by (simp add: request_calls_def request_prompt_def field_def Let_def)
  have e: "calls (translate_gemini ?b ?empty) = [?p]"
    by (simp only: calls_gemini made)
  have t: "calls (translate_gemini ?b ?throws) = [?p]"
    by (simp only: calls_gemini made)
  have e_ok: "?empty ?p = Inr (GenerateContentResult (GenerationResponse (Inr '''')))"
    by simp
  have t_ok: "?throws ?p =
      Inr (GenerateContentResult (GenerationResponse (Inl (JsError ''blocked: SAFETY''))))"
    by simp
  show ?thesis
    using e gemini_no_placeholder [OF e e_ok] gemini_no_placeholder [OF t t_ok]
    by simp
qed

section \<open>Round trip\<close>

text \<open>
  Claim C8. With a provider that answers with the prompt it was given, every valid
  request gets status 200 and a \<open>translation\<close> equal to the prompt the Prompt Builder
  makes of the same text, target language and instructions, at each of the four
  endpoints; and for the body \<^verbatim>\<open>{"text":"Bonjour","targetLanguage":"English"}\<close> with a
  stub answering \<^verbatim>\<open>Hello\<close>, the OpenAI endpoint responds \<^verbatim>\<open>200 {"translation":"Hello"}\<close>.
\<close>

theorem echo_round_trip:
  assumes "field b ''text'' = JStr t" "t \<noteq> []"
    and "field b ''targetLanguage'' = JStr l" "l \<noteq> []"
    and "field b ''instructions'' = (case i of None \<Rightarrow> JUndefined | Some s \<Rightarrow> JStr s)"
  shows "res (translate_gemini b echo_gemini) =
           \<lparr>status = 200, body = [(''translation'', JStr (prompt_builder t l i))]\<rparr>
       \<and> res (translate_claude b echo_claude) =
           \<lparr>status = 200, body = [(''translation'', JStr (prompt_builder t l i))]\<rparr>
       \<and> res (translate_openai b echo_chat) =
           \<lparr>status = 200, body = [(''translation'', JStr (prompt_builder t l i))]\<rparr>
       \<and> res (translate_deepseek b echo_chat) =
           \<lparr>status = 200, body = [(''translation'', JStr (prompt_builder t l i))]\<rparr>
       \<and> res (translate_openai [(''text'', JStr ''Bonjour''), (''targetLanguage'', JStr ''English'')]
             (\<lambda>prompt. Inr (ChatCompletion (Some [Choice (Some (ChatMessage (Some ''Hello'')))])))) =
           \<lparr>status = 200, body = [(''translation'', JStr ''Hello'')]\<rparr>"
proof -
  let ?p = "prompt_builder t l i"
  have "request_calls b = [?p]"
    by (rule request_calls_builder [OF assms])
  then have built: "request_prompt b = Some (Inr ?p)"
    by (simp only: request_calls_single)
  have filled: "?p \<noteq> []"
    by (rule prompt_builder_nonempty)
  have g: "res (translate_gemini b echo_gemini) =
           \<lparr>status = 200, body = [(''translation'', JStr ?p)]\<rparr>"
    using built by (simp add: translate_gemini_unfold echo_gemini_def)
  have c: "res (translate_claude b echo_claude) =
           \<lparr>status = 200, body = [(''translation'', JStr ?p)]\<rparr>"
    using built filled
    by (simp add: translate_claude_unfold echo_claude_def or_else_def index0_def)
  have a: "res (translate_openai b echo_chat) =
           \<lparr>status = 200, body = [(''translation'', JStr ?p)]\<rparr>"
    using built filled
    by (simp add: translate_openai_unfold echo_chat_def or_else_def index0_def)
  have d: "res (translate_deepseek b echo_chat) =
           \<lparr>status = 200, body = [(''translation'', JStr ?p)]\<rparr>"
    using built filled
    by (simp add: translate_deepseek_unfold echo_chat_def or_else_def index0_def)
  have "request_prompt [(''text'', JStr ''Bonjour''), (''targetLanguage'', JStr ''English'')] =
          Some (Inr ''Traduire ce texte en English:\<newline>Bonjour'')"
    by (simp add: request_prompt_def field_def Let_def)
  then have hello:
    "res (translate_openai [(''text'', JStr ''Bonjour''), (''targetLanguage'', JStr ''English'')]
             (\<lambda>prompt. Inr (ChatCompletion (Some [Choice (Some (ChatMessage (Some ''Hello'')))])))) =
           \<lparr>status = 200, body = [(''translation'', JStr ''Hello'')]\<rparr>"
    by (simp add: translate_openai_unfold or_else_def index0_def)
  from g c a d hello show ?thesis by (simp only: simp_thms)
qed

text \<open>
  The body \<^verbatim>\<open>{"text": "Bonjour", "targetLanguage": "English", "instructions": "Be formal"}\<close>
  at the echoing Claude and DeepSeek stubs.
\<close>

theorem echo_round_trip_witness:
  "field [(''text'', JStr ''Bonjour''), (''targetLanguage'', JStr ''English''),
          (''instructions'', JStr ''Be formal'')] ''instructions'' = JStr ''Be formal''
   \<and> prompt_builder ''Bonjour'' ''English'' (Some ''Be formal'') =
       ''Instructions: Be formal\<newline>\<newline>Traduire ce texte en English:\<newline>Bonjour''
   \<and> res (translate_claude [(''text'', JStr ''Bonjour''), (''targetLanguage'', JStr ''English''),
          (''instructions'', JStr ''Be formal'')] echo_claude) =
       \<lparr>status = 200,
        body = [(''translation'',
          JStr ''Instructions: Be formal\<newline>\<newline>Traduire ce texte en English:\<newline>Bonjour'')]\<rparr>
   \<and> res (translate_deepseek [(''text'', JStr ''Bonjour''), (''targetLanguage'', JStr ''English''),
          (''instructions'', JStr ''Be formal'')] echo_chat) =
       \<lparr>status = 200,
        body = [(''translation'',
          JStr ''Instructions: Be formal\<newline>\<newline>Traduire ce texte en English:\<newline>Bonjour'')]\<rparr>"
proof -
  let ?b = "[(''text'', JStr ''Bonjour''), (''targetLanguage'', JStr ''English''),
             (''instructions'', JStr ''Be formal'')]"
  have t: "field ?b ''text'' = JStr ''Bonjour''" by (simp add: field_def)
  have l: "field ?b ''targetLanguage'' = JStr ''English''" by (simp add: field_def)
  have i: "field ?b ''instructions'' =
             (case Some ''Be formal'' of None \<Rightarrow> JUndefined | Some s \<Rightarrow> JStr s)"
    by (simp add: field_def)
  have t_ok: "''Bonjour'' \<noteq> []" by simp
  have l_ok: "''English'' \<noteq> []" by simp
  have p: "prompt_builder ''Bonjour'' ''English'' (Some ''Be formal'') =
       ''Instructions: Be formal\<newline>\<newline>Traduire ce texte en English:\<newline>Bonjour''"
    by (simp add: prompt_builder_def)
  show ?thesis
    using i p echo_round_trip [OF t t_ok l l_ok i]
    by simp
qed

section \<open>Truthiness\<close>

text \<open>
  Claim C9. Validation is JavaScript truthiness, not a test for the empty string: a
  \<open>text\<close> or \<open>targetLanguage\<close> holding a falsy value other than the empty string,
  \<^verbatim>\<open>null\<close> and \<^verbatim>\<open>undefined\<close> (such a value is the number 0 or the boolean
  \<^verbatim>\<open>false\<close>) is rejected with 400 all the same, and no provider is called.
\<close>

theorem validation_is_truthiness:
  assumes "v = field b ''text'' \<or> v = field b ''targetLanguage''"
    and "\<not> truthy v" and "v \<noteq> JStr ''''" and "v \<noteq> JNull" and "v \<noteq> JUndefined"
  shows "(v = JNum 0 \<or> v = JBool False)
       \<and> res (translate_gemini b g) =
           \<lparr>status = 400, body = [(''error'', JStr ''Champs text et targetLanguage requis.'')]\<rparr>
       \<and> calls (translate_gemini b g) = []
       \<and> res (translate_claude b c) =
           \<lparr>status = 400, body = [(''error'', JStr ''Champs text et targetLanguage requis.'')]\<rparr>
       \<and> calls (translate_claude b c) = []
       \<and> res (translate_openai b a) =
           \<lparr>status = 400, body = [(''error'', JStr ''Champs text et targetLanguage requis.'')]\<rparr>
       \<and> calls (translate_openai b a) = []
       \<and> res (translate_deepseek b d) =
           \<lparr>status = 400, body = [(''error'', JStr ''Champs text et targetLanguage requis.'')]\<rparr>
       \<and> calls (translate_deepseek b d) = []"
proof -
  from assms(2-5) have which: "v = JNum 0 \<or> v = JBool False"
    by (cases v) simp_all
  from assms(1,2) have falsy:
    "\<not> truthy (field b ''text'') \<or> \<not> truthy (field b ''targetLanguage'')"
    by auto
  show ?thesis
    by (simp add: which gemini_rejects [OF falsy] claude_rejects [OF falsy]
        openai_rejects [OF falsy] deepseek_rejects [OF falsy])
qed

text \<open>The body \<^verbatim>\<open>{"text": 0, "targetLanguage": "English"}\<close> at the OpenAI endpoint.\<close>

theorem validation_is_truthiness_witness:
  "field [(''text'', JNum 0), (''targetLanguage'', JStr ''English'')] ''text'' = JNum 0
   \<and> res (translate_openai [(''text'', JNum 0), (''targetLanguage'', JStr ''English'')] echo_chat) =
       \<lparr>status = 400, body = [(''error'', JStr ''Champs text et targetLanguage requis.'')]\<rparr>
   \<and> calls (translate_openai [(''text'', JNum 0), (''targetLanguage'', JStr ''English'')] echo_chat)
       = []"
proof -
  let ?b = "[(''text'', JNum 0), (''targetLanguage'', JStr ''English'')]"
  have zero: "field ?b ''text'' = JNum 0" by (simp add: field_def)
  then have v: "JNum 0 = field ?b ''text'' \<or> JNum 0 = field ?b ''targetLanguage''" by simp
  have falsy: "\<not> truthy (JNum 0)" by simp
  have n1: "JNum 0 \<noteq> JStr ''''" by simp
  have n2: "JNum 0 \<noteq> JNull" by simp
  have n3: "JNum 0 \<noteq> JUndefined" by simp
  show ?thesis
    using zero
      validation_is_truthiness [OF v falsy n1 n2 n3, of echo_gemini echo_claude echo_chat echo_chat]
    by simp
qed

section \<open>Response shapes\<close>

lemma three_shapes_validation:
  "three_shapes msg
     \<lparr>status = 400, body = [(''error'', JStr ''Champs text et targetLanguage requis.'')]\<rparr>"
  by (simp add: three_shapes_def exactly_one_def validation_shape_def provider_error_shape_def
        translation_shape_def has_key_def)

lemma three_shapes_provider_error:
  "three_shapes msg \<lparr>status = 500, body = [(''error'', JStr msg)]\<rparr>"
  by (simp add: three_shapes_def exactly_one_def validation_shape_def provider_error_shape_def
        translation_shape_def has_key_def)

lemma three_shapes_translation:
  "three_shapes msg \<lparr>status = 200, body = [(''translation'', JStr s)]\<rparr>"
  by (simp add: three_shapes_def exactly_one_def validation_shape_def provider_error_shape_def
        translation_shape_def has_key_def)

lemmas three_shapes_intros =
  three_shapes_validation three_shapes_provider_error three_shapes_translation

lemma gemini_shapes:
  "three_shapes ''Erreur lors de la traduction via Gemini'' (res (translate_gemini b g))"
  by (simp add: translate_gemini_unfold catch_gemini_def status_json_def three_shapes_intros
        split: option.splits sum.splits)

lemma claude_shapes:
  "three_shapes ''Erreur lors de la traduction via Claude'' (res (translate_claude b c))"
  by (simp add: translate_claude_unfold catch_claude_def status_json_def three_shapes_intros
        split: option.splits sum.splits)

lemma openai_shapes:
  "three_shapes ''Erreur lors de la traduction via OpenAI'' (res (translate_openai b a))"
  by (simp add: translate_openai_unfold catch_openai_def status_json_def three_shapes_intros
        split: option.splits sum.splits)

lemma deepseek_shapes:
  "three_shapes ''Erreur lors de la traduction via DeepSeek'' (res (translate_deepseek b d))"
  by (simp add: translate_deepseek_unfold catch_deepseek_def status_json_def three_shapes_intros
        split: option.splits sum.splits)

text \<open>
  Claim C10. Every response of a translate endpoint has exactly one of three shapes: 400
  with \<^verbatim>\<open>{"error": validation message}\<close>, 500 with \<^verbatim>\<open>{"error": provider message}\<close>, or
  200 with \<^verbatim>\<open>{"translation": string}\<close>; none has both an \<open>error\<close> and a \<open>translation\<close>
  key, and no other status is produced.
\<close>

theorem response_shapes:
  "three_shapes ''Erreur lors de la traduction via Gemini'' (res (translate_gemini b g))
   \<and> three_shapes ''Erreur lors de la traduction via Claude'' (res (translate_claude b c))
   \<and> three_shapes ''Erreur lors de la traduction via OpenAI'' (res (translate_openai b a))
   \<and> three_shapes ''Erreur lors de la traduction via DeepSeek'' (res (translate_deepseek b d))"
  by (simp only: gemini_shapes claude_shapes openai_shapes deepseek_shapes simp_thms)

text \<open>
  The body \<^verbatim>\<open>{"text": {"toString": null}, "targetLanguage": "English"}\<close>, whose
  interpolation throws, and the body \<^verbatim>\<open>{"text": "Bonjour", "targetLanguage": "English"}\<close>.
\<close>

theorem response_shapes_witness:
  "res (translate_gemini [(''text'', JObj [(''toString'', JNull)]), (''targetLanguage'', JStr ''English'')]
      echo_gemini) =
     \<lparr>status = 500, body = [(''error'', JStr ''Erreur lors de la traduction via Gemini'')]\<rparr>
   \<and> three_shapes ''Erreur lors de la traduction via Gemini''
       (res (translate_gemini [(''text'', JObj [(''toString'', JNull)]),
          (''targetLanguage'', JStr ''English'')] echo_gemini))
   \<and> three_shapes ''Erreur lors de la traduction via Claude''
       (res (translate_claude [(''text'', JStr ''Bonjour''), (''targetLanguage'', JStr ''English'')]
          echo_claude))
   \<and> three_shapes ''Erreur lors de la traduction via OpenAI''
       (res (translate_openai [] echo_chat))
   \<and> three_shapes ''Erreur lors de la traduction via DeepSeek''
       (res (translate_deepseek [(''text'', JStr ''Bonjour''), (''targetLanguage'', JStr ''English'')]
          (\<lambda>p. Inl (JsError ''ECONNRESET''))))"
proof -
  have thrown:
    "res (translate_gemini [(''text'', JObj [(''toString'', JNull)]), (''targetLanguage'', JStr ''English'')]
      echo_gemini) =
     \<lparr>status = 500, body = [(''error'', JStr ''Erreur lors de la traduction via Gemini'')]\<rparr>"
    by (simp add: translate_gemini_unfold request_prompt_def field_def Let_def catch_gemini_def
        status_json_def)
  show ?thesis
    using thrown
      response_shapes [where b = "[(''text'', JObj [(''toString'', JNull)]),
                                   (''targetLanguage'', JStr ''English'')]"
        and g = echo_gemini and c = echo_claude and a = echo_chat
        and d = "\<lambda>p. Inl (JsError ''ECONNRESET'')"]
      response_shapes [where b = "[(''text'', JStr ''Bonjour''), (''targetLanguage'', JStr ''English'')]"
        and g = echo_gemini and c = echo_claude and a = echo_chat
        and d = "\<lambda>p. Inl (JsError ''ECONNRESET'')"]
      response_shapes [where b = "[]"
        and g = echo_gemini and c = echo_claude and a = echo_chat
        and d = "\<lambda>p. Inl (JsError ''ECONNRESET'')"]
    by simp
qed

end
